theory Spec2Isabelle
  imports Complex_Main
begin

section \<open>The log analyzer of analog (src/analog/analyzer.py)\<close>

text \<open>
  The class \<open>Analyzer\<close> scans a log file line by line, keeps the requests of the last
  \<open>max_age\<close> minutes whose path is monitored, and hands each of them to a report. The
  modules \<open>analog.formats\<close>, \<open>analog.report\<close> and \<open>analog.exceptions\<close> are imported by
  the analyzer and are other modules of the package: what the analyzer uses of them
  (a pattern, a conversion of a match into a log entry, a time format, the method
  \<open>add\<close>) is a parameter of the model or a plain recording of the calls.
\<close>

subsection \<open>Exceptions\<close>

datatype error = MissingFormatError | ValueError | OverflowError | AttributeError

subsection \<open>Naive datetimes\<close>

text \<open>
  A naive \<open>datetime.datetime\<close> is the number of microseconds since
  0001-01-01 00:00:00: Python compares and subtracts datetimes on the proleptic
  Gregorian calendar with days of 86400 seconds, so the order of datetimes is the order
  of these numbers and a \<open>timedelta\<close> of \<open>m\<close> minutes is \<open>60000000 * m\<close>. The type
  ends with 9999-12-31 23:59:59.999999, the last microsecond of day 3652059.
\<close>

type_synonym datetime = int

definition valid_datetime :: "int \<Rightarrow> bool" where
  "valid_datetime t \<longleftrightarrow> 0 \<le> t \<and> t < 3652059 * 86400 * 1000000"

text \<open>\<open>t.replace(second=0, microsecond=0)\<close>: the minute that \<open>t\<close> lies in.\<close>

definition replace_second0_microsecond0 :: "datetime \<Rightarrow> datetime" where
  "replace_second0_microsecond0 t = t - t mod 60000000"

text \<open>
  \<open>t - datetime.timedelta(minutes=m)\<close>. Python raises OverflowError when the timedelta
  has more than 999999999 days or when the difference is no datetime; the first case
  is one of the second, since a datetime has fewer than 3652060 days.
\<close>

definition minus_timedelta_minutes :: "datetime \<Rightarrow> int \<Rightarrow> error + datetime" where
  "minus_timedelta_minutes t m =
     (let d = t - 60000000 * m in if valid_datetime d then Inr d else Inl OverflowError)"

subsection \<open>Log formats and log entries\<close>

text \<open>
  A log entry has the seven fields the analyzer reads, all of them strings as the
  pattern captured them.
\<close>

record log_entry =
  timestamp :: string
  path :: string
  verb :: string
  status :: string
  request_time :: string
  upstream_response_time :: string
  body_bytes_sent :: string

text \<open>
  Of a \<open>LogFormat\<close> the analyzer uses \<open>pattern.search(line)\<close>, which yields a match
  object or None, \<open>entry(match)\<close>, and \<open>time_format\<close>, which it only passes to
  \<open>datetime.datetime.strptime\<close>. The field \<open>strptime\<close> is that call with the time
  format of the log format: a datetime, or the exception raised for a string that the
  time format does not describe. The type \<open>'m\<close> is the type of match objects.
\<close>

record 'm LogFormat =
  name :: string
  pattern_search :: "string \<Rightarrow> 'm option"
  entry :: "'m \<Rightarrow> log_entry"
  strptime :: "string \<Rightarrow> error + datetime"

text \<open>
  The builtins \<open>int\<close> and \<open>float\<close> applied to a string: the number, or the exception.
  The type \<open>'f\<close> is the type of floats.
\<close>

record 'f builtins =
  int_py :: "string \<Rightarrow> error + int"
  float_py :: "string \<Rightarrow> error + 'f"

subsection \<open>The report\<close>

text \<open>
  Modelled from the spec: the class \<open>Report\<close> of \<open>analog.report\<close>, of which the spec
  says that it is a mutable aggregation target with an \<open>add\<close> operation taking the six
  record fields and a settable scan duration. The model keeps the calls of \<open>add\<close> in
  the order they were made.
\<close>

record 'f add_call =
  add_path :: string
  add_verb :: string
  add_status :: int
  add_time :: 'f
  add_upstream_time :: 'f
  add_body_bytes :: int

record 'f Report =
  entries :: "'f add_call list"
  execution_time :: "'f option"

definition Report_init :: "'f Report" where
  "Report_init = \<lparr>entries = [], execution_time = None\<rparr>"

definition Report_add :: "'f Report \<Rightarrow> 'f add_call \<Rightarrow> 'f Report" where
  "Report_add report c = report\<lparr>entries := entries report @ [c]\<rparr>"

subsection \<open>The analyzer\<close>

text \<open>
  The attributes of an \<open>Analyzer\<close>. \<open>self_log\<close> is the file handle: the lines that the
  iteration over it has not yet produced. \<open>self_now\<close> and \<open>self_min_time\<close> do not exist
  before the first call of the analyzer (None). The attribute \<open>execution_time\<close> is set
  to None by \<open>__init__\<close> and used nowhere else.
\<close>

record 'm Analyzer =
  self_log :: "string list"
  self_format :: "'m LogFormat"
  self_pathconf :: "string list"
  self_max_age :: int
  self_now :: "datetime option"
  self_min_time :: "datetime option"

text \<open>
  \<open>Analyzer.__init__\<close>, with \<open>logfile\<close> for its parameter \<open>log\<close>. The format is None
  or a string. \<open>all_formats\<close> is the dictionary
  \<open>LogFormat.all_formats()\<close> and \<open>custom\<close> is \<open>LogFormat('custom', re.escape(format))\<close>
  as a function of \<open>format\<close>.
\<close>

definition Analyzer_init ::
  "(string \<rightharpoonup> 'm LogFormat) \<Rightarrow> (string \<Rightarrow> 'm LogFormat) \<Rightarrow>
   string list \<Rightarrow> string option \<Rightarrow> string list \<Rightarrow> int \<Rightarrow> error + 'm Analyzer" where
  "Analyzer_init all_formats custom logfile format paths max_age =
     (if format = None \<or> format = Some [] then Inl MissingFormatError
      else
        let f = the format in
        Inr \<lparr>self_log = logfile,
             self_format = (case all_formats f of Some known \<Rightarrow> known | None \<Rightarrow> custom f),
             self_pathconf = paths,
             self_max_age = max_age,
             self_now = None,
             self_min_time = None\<rparr>)"

text \<open>\<open>path.startswith(monitored)\<close> on strings.\<close>

definition startswith :: "string \<Rightarrow> string \<Rightarrow> bool" where
  "startswith s p \<longleftrightarrow> take (length p) s = p"

text \<open>The loop of \<open>_monitor_path\<close> over the configured paths, and the method.\<close>

fun first_monitored :: "string \<Rightarrow> string list \<Rightarrow> string option" where
  "first_monitored p [] = None"
| "first_monitored p (monitored # rest) =
     (if startswith p monitored then Some monitored else first_monitored p rest)"

definition Analyzer_monitor_path :: "'m Analyzer \<Rightarrow> string \<Rightarrow> string option" where
  "Analyzer_monitor_path a p =
     (if self_pathconf a = [] then Some p else first_monitored p (self_pathconf a))"

text \<open>\<open>_timestamp\<close>.\<close>

definition Analyzer_timestamp :: "'m Analyzer \<Rightarrow> string \<Rightarrow> error + datetime" where
  "Analyzer_timestamp a time_str = strptime (self_format a) time_str"

subsection \<open>The scan\<close>

text \<open>
  The call of \<open>report.add\<close> in the loop (lines 124 to 130): the keyword arguments are
  evaluated from left to right, and the first conversion that fails raises.
\<close>

definition collect ::
  "'f builtins \<Rightarrow> 'f Report \<Rightarrow> string \<Rightarrow> log_entry \<Rightarrow> error + 'f Report" where
  "collect b report p log_entry =
     (case int_py b (status log_entry) of
        Inl e \<Rightarrow> Inl e
      | Inr st \<Rightarrow>
     (case float_py b (request_time log_entry) of
        Inl e \<Rightarrow> Inl e
      | Inr t \<Rightarrow>
     (case float_py b (upstream_response_time log_entry) of
        Inl e \<Rightarrow> Inl e
      | Inr ut \<Rightarrow>
     (case int_py b (body_bytes_sent log_entry) of
        Inl e \<Rightarrow> Inl e
      | Inr bb \<Rightarrow>
          Inr (Report_add report
                 \<lparr>add_path = p, add_verb = verb log_entry, add_status = st,
                  add_time = t, add_upstream_time = ut, add_body_bytes = bb\<rparr>)))))"

text \<open>
  How one pass through the body of the loop ends: at its end or with \<open>continue\<close>, with
  \<open>break\<close>, or with an exception.
\<close>

datatype control = Continue | Break | Raise error

text \<open>
  The body of the loop (lines 105 to 130) for one line, with the report as it is after
  the body. Reading \<open>self._min_time\<close> or \<open>self._now\<close> raises AttributeError when the
  attribute does not exist.
\<close>

definition loop_body ::
  "'f builtins \<Rightarrow> 'm Analyzer \<Rightarrow> 'f Report \<Rightarrow> string \<Rightarrow> control \<times> 'f Report" where
  "loop_body b a report line =
     (case pattern_search (self_format a) line of
        None \<Rightarrow> (Continue, report)
      | Some match \<Rightarrow>
          let log_entry = entry (self_format a) match in
          (case Analyzer_timestamp a (timestamp log_entry) of
             Inl e \<Rightarrow> (Raise e, report)
           | Inr ts \<Rightarrow>
          (case self_min_time a of
             None \<Rightarrow> (Raise AttributeError, report)
           | Some min_time \<Rightarrow>
               if ts < min_time then (Continue, report)
               else
          (case self_now a of
             None \<Rightarrow> (Raise AttributeError, report)
           | Some now \<Rightarrow>
               if ts > now then (Break, report)
               else
          (case Analyzer_monitor_path a (path log_entry) of
             None \<Rightarrow> (Continue, report)
           | Some p \<Rightarrow>
          (case collect b report p log_entry of
             Inl e \<Rightarrow> (Raise e, report)
           | Inr report' \<Rightarrow> (Continue, report')))))))"

text \<open>
  One turn of \<open>for line in self._log\<close> from a state of the loop, which is the analyzer
  and the report: either the state from which the loop goes on (Inl), or the end of the
  loop (Inr) with the exception that ended it, if any. The handle has given the line
  before the body runs.
\<close>

definition scan_step ::
  "'f builtins \<Rightarrow> 'm Analyzer \<times> 'f Report \<Rightarrow>
   'm Analyzer \<times> 'f Report + error option \<times> 'm Analyzer \<times> 'f Report" where
  "scan_step b s =
     (case s of (a, report) \<Rightarrow>
        (case self_log a of
           [] \<Rightarrow> Inr (None, a, report)
         | line # rest \<Rightarrow>
             let a' = a\<lparr>self_log := rest\<rparr> in
             (case loop_body b a' report line of
                (Continue, report') \<Rightarrow> Inl (a', report')
              | (Break, report') \<Rightarrow> Inr (None, a', report')
              | (Raise e, report') \<Rightarrow> Inr (Some e, a', report'))))"

text \<open>The loop.\<close>

function scan ::
  "'f builtins \<Rightarrow> 'm Analyzer \<Rightarrow> 'f Report \<Rightarrow> error option \<times> 'm Analyzer \<times> 'f Report" where
  "scan b a report =
     (case scan_step b (a, report) of
        Inl (a', report') \<Rightarrow> scan b a' report'
      | Inr res \<Rightarrow> res)"
  by pat_completeness auto
termination
  by (relation "measure (\<lambda>(b, a, report). length (self_log a))")
     (auto simp: scan_step_def Let_def split: list.splits prod.splits control.splits)

text \<open>
  The states of the loop that a scan passes through: the state it starts from, and the
  state after each turn that ends without \<open>break\<close> and without an exception.
\<close>

inductive scan_reaches ::
  "'f builtins \<Rightarrow> 'm Analyzer \<times> 'f Report \<Rightarrow> 'm Analyzer \<times> 'f Report \<Rightarrow> bool"
  for b :: "'f builtins" and s :: "'m Analyzer \<times> 'f Report" where
  start: "scan_reaches b s s"
| turn: "scan_reaches b s s' \<Longrightarrow> scan_step b s' = Inl s'' \<Longrightarrow> scan_reaches b s s''"

code_pred scan_reaches .

text \<open>
  Lines 93 to 95 of \<open>__call__\<close>, with the reading \<open>clock\<close> of \<open>datetime.datetime.now()\<close>:
  the analyzer afterwards, and the exception if the subtraction raised.
\<close>

definition set_window :: "datetime \<Rightarrow> 'm Analyzer \<Rightarrow> 'm Analyzer \<times> error option" where
  "set_window clock a =
     (let a1 = a\<lparr>self_now := Some clock\<rparr>;
          a2 = a1\<lparr>self_now := Some (replace_second0_microsecond0 clock)\<rparr>
      in case minus_timedelta_minutes (replace_second0_microsecond0 clock) (self_max_age a2) of
           Inl e \<Rightarrow> (a2, Some e)
         | Inr min_time \<Rightarrow> (a2\<lparr>self_min_time := Some min_time\<rparr>, None))"

text \<open>
  What a call of the analyzer gives: the report, or an exception together with the
  report object of the call as it was when the exception left the loop (None when the
  exception came before the report was made).
\<close>

datatype 'f outcome = Returned "'f Report" | Raised error "'f Report option"

text \<open>
  \<open>Analyzer.__call__\<close>. \<open>elapsed\<close> is \<open>finished - started\<close>, the difference of the two
  readings of \<open>time.clock()\<close>.
\<close>

definition Analyzer_call ::
  "'f builtins \<Rightarrow> datetime \<Rightarrow> 'f \<Rightarrow> 'm Analyzer \<Rightarrow> 'm Analyzer \<times> 'f outcome" where
  "Analyzer_call b clock elapsed a =
     (case set_window clock a of
        (a0, Some e) \<Rightarrow> (a0, Raised e None)
      | (a0, None) \<Rightarrow>
          (case scan b a0 Report_init of
             (Some e, a', report) \<Rightarrow> (a', Raised e (Some report))
           | (None, a', report) \<Rightarrow>
               (a', Returned (report\<lparr>execution_time := Some elapsed\<rparr>))))"

subsection \<open>A small log format and a small log\<close>

text \<open>
  A log format for trying the analyzer on concrete lines. Its pattern matches the lines
  of a table, its match objects are the log entries themselves, and its time format
  knows the minutes 85 to 101 of the first day of the calendar. The builtins convert
  the numerals that occur in the table.
\<close>

definition demo_entry :: "string \<Rightarrow> string \<Rightarrow> string \<Rightarrow> log_entry" where
  "demo_entry ts p st =
     \<lparr>timestamp = ts, path = p, verb = ''GET'', status = st, request_time = ''0.050'',
      upstream_response_time = ''0.045'', body_bytes_sent = ''512''\<rparr>"

definition demo_lines :: "(string \<times> log_entry) list" where
  "demo_lines =
     [(''old'', demo_entry ''01:25'' ''/api/v1/foo'' ''200''),
      (''first'', demo_entry ''01:30'' ''/api/v1/foo'' ''200''),
      (''mid'', demo_entry ''01:35'' ''/ab/x'' ''200''),
      (''last'', demo_entry ''01:40'' ''/api/v1/foo'' ''404''),
      (''future'', demo_entry ''01:41'' ''/api/v1/foo'' ''200''),
      (''elsewhere'', demo_entry ''01:35'' ''/zzz'' ''200''),
      (''badtime'', demo_entry ''25:99'' ''/api/v1/foo'' ''200''),
      (''badstatus'', demo_entry ''01:35'' ''/api/v1/foo'' ''2oo'')]"

definition demo_format :: "log_entry LogFormat" where
  "demo_format =
     \<lparr>name = ''demo'',
      pattern_search = map_of demo_lines,
      entry = (\<lambda>match. match),
      strptime = (\<lambda>time_str.
        case map_of [(''01:25'', 5100000000), (''01:30'', 5400000000), (''01:35'', 5700000000),
                     (''01:40'', 6000000000), (''01:41'', 6060000000)] time_str of
          Some t \<Rightarrow> Inr t
        | None \<Rightarrow> Inl ValueError)\<rparr>"

definition demo_builtins :: "real builtins" where
  "demo_builtins =
     \<lparr>int_py = (\<lambda>s. case map_of [(''200'', 200), (''404'', 404), (''512'', 512)] s of
                       Some n \<Rightarrow> Inr n
                     | None \<Rightarrow> Inl ValueError),
      float_py = (\<lambda>s. case map_of [(''0.050'', 50 / 1000), (''0.045'', 45 / 1000)] s of
                         Some x \<Rightarrow> Inr x
                       | None \<Rightarrow> Inl ValueError)\<rparr>"

text \<open>
  The analyzer as \<open>__init__\<close> leaves it, and as it is during a call whose clock read
  01:40:50.000123 with \<open>max_age\<close> 10: the window is from 01:30 to 01:40.
\<close>

definition demo_analyzer :: "string list \<Rightarrow> string list \<Rightarrow> int \<Rightarrow> log_entry Analyzer" where
  "demo_analyzer logfile paths max_age =
     \<lparr>self_log = logfile, self_format = demo_format, self_pathconf = paths,
      self_max_age = max_age, self_now = None, self_min_time = None\<rparr>"

definition demo_scanning :: "string list \<Rightarrow> string list \<Rightarrow> log_entry Analyzer" where
  "demo_scanning logfile paths =
     (demo_analyzer logfile paths 10)\<lparr>self_now := Some 6000000000, self_min_time := Some 5400000000\<rparr>"

definition demo_add :: "string \<Rightarrow> int \<Rightarrow> real add_call" where
  "demo_add p st =
     \<lparr>add_path = p, add_verb = ''GET'', add_status = st, add_time = 50 / 1000,
      add_upstream_time = 45 / 1000, add_body_bytes = 512\<rparr>"

section \<open>Properties of the analyzer\<close>

subsection \<open>Unfolding the loop\<close>

declare scan.simps [simp del]

lemmas demo_defs = demo_entry_def demo_lines_def demo_format_def demo_builtins_def
  demo_analyzer_def demo_scanning_def demo_add_def

text \<open>The body of the loop does not look at the file handle.\<close>

lemma loop_body_self_log [simp]:
  "loop_body b (a\<lparr>self_log := l\<rparr>) report line = loop_body b a report line"
  by (simp add: loop_body_def Analyzer_timestamp_def Analyzer_monitor_path_def Let_def
      split: option.split sum.split)

text \<open>The loop at a line, by the way the body ends for that line.\<close>

lemma scan_Nil:
  "scan b (a\<lparr>self_log := []\<rparr>) report = (None, a\<lparr>self_log := []\<rparr>, report)"
  by (subst scan.simps) (simp add: scan_step_def)

lemma scan_Continue:
  "loop_body b a report line = (Continue, report') \<Longrightarrow>
   scan b (a\<lparr>self_log := line # rest\<rparr>) report = scan b (a\<lparr>self_log := rest\<rparr>) report'"
  by (subst scan.simps) (simp add: scan_step_def)

lemma scan_Break:
  "loop_body b a report line = (Break, report') \<Longrightarrow>
   scan b (a\<lparr>self_log := line # rest\<rparr>) report = (None, a\<lparr>self_log := rest\<rparr>, report')"
  by (subst scan.simps) (simp add: scan_step_def)

lemma scan_Raise:
  "loop_body b a report line = (Raise e, report') \<Longrightarrow>
   scan b (a\<lparr>self_log := line # rest\<rparr>) report = (Some e, a\<lparr>self_log := rest\<rparr>, report')"
  by (subst scan.simps) (simp add: scan_step_def)

subsection \<open>Path resolution\<close>

text \<open>
  C9: when the configured list of monitored paths is empty, \<open>_monitor_path\<close> gives every
  request path back unchanged, and no record is left out as unmonitored: a matched
  record inside the window goes to \<open>report.add\<close> under its own full path, so that the
  body of the loop ends as the conversions of its numbers end.
\<close>

theorem C9_identity_without_pathconf:
  assumes "self_pathconf a = []"
  shows "Analyzer_monitor_path a p = Some p \<and>
    (pattern_search (self_format a) line = Some match \<and> entry (self_format a) match = e \<and>
     Analyzer_timestamp a (timestamp e) = Inr ts \<and>
     self_min_time a = Some min_time \<and> self_now a = Some now \<and> min_time \<le> ts \<and> ts \<le> now \<longrightarrow>
     loop_body b a report line =
       (case collect b report (path e) e of
          Inl err \<Rightarrow> (Raise err, report)
        | Inr report' \<Rightarrow> (Continue, report')))"
  using assms by (auto simp: loop_body_def Analyzer_monitor_path_def)

theorem C9_identity_without_pathconf_witness:
  "self_pathconf (demo_scanning [] []) = [] \<and>
   Analyzer_monitor_path (demo_scanning [] []) ''/ab/x'' = Some ''/ab/x'' \<and>
   pattern_search (self_format (demo_scanning [] [])) ''mid'' =
     Some (demo_entry ''01:35'' ''/ab/x'' ''200'') \<and>
   Analyzer_timestamp (demo_scanning [] []) ''01:35'' = Inr 5700000000 \<and>
   self_min_time (demo_scanning [] []) = Some 5400000000 \<and>
   self_now (demo_scanning [] []) = Some 6000000000 \<and>
   loop_body demo_builtins (demo_scanning [] []) Report_init ''mid'' =
     (Continue, \<lparr>entries = [demo_add ''/ab/x'' 200], execution_time = None\<rparr>)"
proof -
  let ?a = "demo_scanning [] []"
  let ?e = "demo_entry ''01:35'' ''/ab/x'' ''200''"
  have conf: "self_pathconf ?a = []"
    by (simp add: demo_defs)
  have h: "pattern_search (self_format ?a) ''mid'' = Some ?e \<and> entry (self_format ?a) ?e = ?e \<and>
     Analyzer_timestamp ?a (timestamp ?e) = Inr 5700000000 \<and>
     self_min_time ?a = Some 5400000000 \<and> self_now ?a = Some 6000000000 \<and>
     (5400000000::int) \<le> 5700000000 \<and> (5700000000::int) \<le> 6000000000"
    by (simp add: demo_defs Analyzer_timestamp_def)
  have c: "collect demo_builtins Report_init (path ?e) ?e =
      Inr \<lparr>entries = [demo_add ''/ab/x'' 200], execution_time = None\<rparr>"
    by (simp add: demo_defs collect_def Report_init_def Report_add_def)
  from C9_identity_without_pathconf [OF conf, of "''/ab/x''" "''mid''" ?e ?e 5700000000 5400000000
      6000000000 demo_builtins Report_init] h c
  have "Analyzer_monitor_path ?a ''/ab/x'' = Some ''/ab/x'' \<and>
     loop_body demo_builtins ?a Report_init ''mid'' =
       (Continue, \<lparr>entries = [demo_add ''/ab/x'' 200], execution_time = None\<rparr>)"
    by simp
  with conf h show ?thesis
    by (simp add: demo_entry_def)
qed

text \<open>\<open>startswith\<close> is the prefix relation.\<close>

lemma startswith_iff: "startswith s p \<longleftrightarrow> (\<exists>t. s = p @ t)"
  unfolding startswith_def
  by (metis append_eq_conv_conj append_take_drop_id)

text \<open>What the loop over the configured paths finds.\<close>

lemma first_monitored_None_iff:
  "first_monitored p ms = None \<longleftrightarrow> (\<forall>m\<in>set ms. \<not> startswith p m)"
  by (induction ms) auto

lemma first_monitored_SomeD:
  "first_monitored p ms = Some m \<Longrightarrow>
   \<exists>pre post. ms = pre @ m # post \<and> startswith p m \<and> (\<forall>x\<in>set pre. \<not> startswith p x)"
proof (induction ms)
  case Nil
  then show ?case by simp
next
  case (Cons x ms)
  show ?case
  proof (cases "startswith p x")
    case True
    with Cons.prems have "x # ms = [] @ m # ms \<and> startswith p m" by simp
    then show ?thesis by fastforce
  next
    case False
    with Cons obtain pre post where
      d: "ms = pre @ m # post" "startswith p m" "\<forall>y\<in>set pre. \<not> startswith p y"
      by auto
    with False have "x # ms = (x # pre) @ m # post \<and> (\<forall>y\<in>set (x # pre). \<not> startswith p y)"
      by simp
    with d(2) show ?thesis by blast
  qed
qed

lemma first_monitored_SomeI:
  "\<forall>x\<in>set pre. \<not> startswith p x \<Longrightarrow> startswith p m \<Longrightarrow>
   first_monitored p (pre @ m # post) = Some m"
  by (induction pre) auto

lemma first_monitored_Some_iff:
  "first_monitored p ms = Some m \<longleftrightarrow>
     (\<exists>pre post. ms = pre @ m # post \<and> startswith p m \<and> (\<forall>x\<in>set pre. \<not> startswith p x))"
  using first_monitored_SomeD first_monitored_SomeI by blast

text \<open>
  C1: with a non-empty list of monitored paths, \<open>_monitor_path\<close> returns the first
  entry of the list, in the order of the list, that the request path starts with, also
  when later entries match as well, and None when the path starts with no entry. A
  matched record inside the window whose path is not monitored is left out: the body
  of the loop ends with \<open>continue\<close> and the report as it was, so that the scan goes on
  as if the line were not there.
\<close>

theorem C1_first_configured_prefix:
  assumes "self_pathconf a \<noteq> []"
  shows
   "(Analyzer_monitor_path a p = Some m \<longleftrightarrow>
       (\<exists>pre post. self_pathconf a = pre @ m # post \<and> startswith p m \<and>
          (\<forall>x\<in>set pre. \<not> startswith p x))) \<and>
    (Analyzer_monitor_path a p = None \<longleftrightarrow> (\<forall>x\<in>set (self_pathconf a). \<not> startswith p x)) \<and>
    (pattern_search (self_format a) line = Some match \<and> entry (self_format a) match = e \<and>
     Analyzer_timestamp a (timestamp e) = Inr ts \<and>
     self_min_time a = Some min_time \<and> self_now a = Some now \<and> min_time \<le> ts \<and> ts \<le> now \<and>
     Analyzer_monitor_path a (path e) = None \<longrightarrow>
       loop_body b a report line = (Continue, report) \<and>
       scan b (a\<lparr>self_log := line # rest\<rparr>) report = scan b (a\<lparr>self_log := rest\<rparr>) report)"
proof (intro conjI impI)
  show "Analyzer_monitor_path a p = Some m \<longleftrightarrow>
       (\<exists>pre post. self_pathconf a = pre @ m # post \<and> startswith p m \<and>
          (\<forall>x\<in>set pre. \<not> startswith p x))"
    using assms by (simp add: Analyzer_monitor_path_def first_monitored_Some_iff)
next
  show "Analyzer_monitor_path a p = None \<longleftrightarrow> (\<forall>x\<in>set (self_pathconf a). \<not> startswith p x)"
    using assms by (simp add: Analyzer_monitor_path_def first_monitored_None_iff)
next
  assume h: "pattern_search (self_format a) line = Some match \<and> entry (self_format a) match = e \<and>
     Analyzer_timestamp a (timestamp e) = Inr ts \<and>
     self_min_time a = Some min_time \<and> self_now a = Some now \<and> min_time \<le> ts \<and> ts \<le> now \<and>
     Analyzer_monitor_path a (path e) = None"
  then show body: "loop_body b a report line = (Continue, report)"
    by (auto simp: loop_body_def)
  then show "scan b (a\<lparr>self_log := line # rest\<rparr>) report = scan b (a\<lparr>self_log := rest\<rparr>) report"
    by (rule scan_Continue)
qed

theorem C1_first_configured_prefix_witness:
  "self_pathconf (demo_scanning [] [''/a'', ''/ab'']) \<noteq> [] \<and>
   startswith ''/ab/x'' ''/a'' \<and> startswith ''/ab/x'' ''/ab'' \<and>
   Analyzer_monitor_path (demo_scanning [] [''/a'', ''/ab'']) ''/ab/x'' = Some ''/a'' \<and>
   Analyzer_monitor_path (demo_scanning [] [''/a'', ''/ab'']) ''/zzz'' = None \<and>
   pattern_search (self_format (demo_scanning [] [''/a'', ''/ab''])) ''elsewhere'' =
     Some (demo_entry ''01:35'' ''/zzz'' ''200'') \<and>
   loop_body demo_builtins (demo_scanning [] [''/a'', ''/ab'']) Report_init ''elsewhere'' =
     (Continue, Report_init) \<and>
   scan demo_builtins (demo_scanning [''elsewhere'', ''mid''] [''/a'', ''/ab'']) Report_init =
     (None, demo_scanning [] [''/a'', ''/ab''],
      \<lparr>entries = [demo_add ''/a'' 200], execution_time = None\<rparr>)"
proof -
  let ?a = "demo_scanning [] [''/a'', ''/ab'']"
  let ?e = "demo_entry ''01:35'' ''/zzz'' ''200''"
  have conf: "self_pathconf ?a \<noteq> []"
    by (simp add: demo_defs)
  have pre: "startswith ''/ab/x'' ''/a'' \<and> startswith ''/ab/x'' ''/ab''"
    by (simp add: startswith_def)
  have first: "\<exists>pre post. self_pathconf ?a = pre @ ''/a'' # post \<and> startswith ''/ab/x'' ''/a'' \<and>
          (\<forall>x\<in>set pre. \<not> startswith ''/ab/x'' x)"
  proof (intro exI conjI)
    show "self_pathconf ?a = [] @ ''/a'' # [''/ab'']" by (simp add: demo_defs)
    show "startswith ''/ab/x'' ''/a''" by (simp add: startswith_def)
    show "\<forall>x\<in>set []. \<not> startswith ''/ab/x'' x" by simp
  qed
  have none: "\<forall>x\<in>set (self_pathconf ?a). \<not> startswith ''/zzz'' x"
    by (simp add: demo_defs startswith_def)
  have h: "pattern_search (self_format ?a) ''elsewhere'' = Some ?e \<and> entry (self_format ?a) ?e = ?e \<and>
     Analyzer_timestamp ?a (timestamp ?e) = Inr 5700000000 \<and>
     self_min_time ?a = Some 5400000000 \<and> self_now ?a = Some 6000000000 \<and>
     (5400000000::int) \<le> 5700000000 \<and> (5700000000::int) \<le> 6000000000"
    by (simp add: demo_defs Analyzer_timestamp_def)
  have p: "path ?e = ''/zzz''"
    by (simp add: demo_entry_def)
  note thm1 = C1_first_configured_prefix [OF conf, of "''/ab/x''" "''/a''"]
  note thm2 = C1_first_configured_prefix [OF conf, of "''/zzz''" _ "''elsewhere''" ?e ?e 5700000000
      5400000000 6000000000 demo_builtins Report_init "[''mid'']"]
  from thm1 first have r1: "Analyzer_monitor_path ?a ''/ab/x'' = Some ''/a''"
    by blast
  from thm2 none have r2: "Analyzer_monitor_path ?a ''/zzz'' = None"
    by blast
  from thm2 h r2 p have r3: "loop_body demo_builtins ?a Report_init ''elsewhere'' = (Continue, Report_init) \<and>
     scan demo_builtins (?a\<lparr>self_log := [''elsewhere'', ''mid'']\<rparr>) Report_init =
     scan demo_builtins (?a\<lparr>self_log := [''mid'']\<rparr>) Report_init"
    by simp
  have r4: "scan demo_builtins (?a\<lparr>self_log := [''mid'']\<rparr>) Report_init =
     (None, ?a, \<lparr>entries = [demo_add ''/a'' 200], execution_time = None\<rparr>)"
    by (simp add: demo_defs scan.simps scan_step_def loop_body_def collect_def
        Analyzer_timestamp_def Analyzer_monitor_path_def startswith_def Report_init_def
        Report_add_def)
  have upd: "?a\<lparr>self_log := [''elsewhere'', ''mid'']\<rparr> = demo_scanning [''elsewhere'', ''mid''] [''/a'', ''/ab'']"
    by (simp add: demo_defs)
  from conf pre r1 r2 h r3 r4 upd show ?thesis
    by simp
qed

subsection \<open>The window of a call\<close>

text \<open>What lines 93 to 95 leave in the analyzer when the subtraction does not raise.\<close>

lemma set_window_None:
  assumes "set_window clock a0 = (a, None)"
  shows "a = a0\<lparr>self_now := Some (replace_second0_microsecond0 clock),
                 self_min_time :=
                   Some (replace_second0_microsecond0 clock - 60000000 * self_max_age a0)\<rparr>"
  using assms
  by (auto simp: set_window_def minus_timedelta_minutes_def Let_def split: if_splits)

lemma set_window_fields:
  assumes "set_window clock a0 = (a, None)"
  shows "self_now a = Some (replace_second0_microsecond0 clock)"
    and "self_min_time a =
           Some (replace_second0_microsecond0 clock - 60000000 * self_max_age a0)"
    and "self_format a = self_format a0" and "self_pathconf a = self_pathconf a0"
    and "self_max_age a = self_max_age a0" and "self_log a = self_log a0"
  by (simp_all add: set_window_None [OF assms])

subsection \<open>Lines that the pattern does not match\<close>

text \<open>
  C6: for a line that the pattern of the format does not match, the body of the loop
  ends with \<open>continue\<close>, raises nothing and leaves the report as it was: the scan of a
  log that begins with such a line is the scan of the lines after it.
\<close>

theorem C6_unmatched_line_skipped:
  assumes "pattern_search (self_format a) line = None"
  shows "loop_body b a report line = (Continue, report) \<and>
         scan b (a\<lparr>self_log := line # rest\<rparr>) report = scan b (a\<lparr>self_log := rest\<rparr>) report"
proof -
  from assms have "loop_body b a report line = (Continue, report)"
    by (simp add: loop_body_def)
  then show ?thesis
    by (simp add: scan_Continue)
qed

theorem C6_unmatched_line_skipped_witness:
  "pattern_search (self_format (demo_scanning [] [])) ''# restarted'' = None \<and>
   loop_body demo_builtins (demo_scanning [] []) Report_init ''# restarted'' =
     (Continue, Report_init) \<and>
   scan demo_builtins (demo_scanning [''# restarted'', ''mid''] []) Report_init =
     (None, demo_scanning [] [], \<lparr>entries = [demo_add ''/ab/x'' 200], execution_time = None\<rparr>)"
proof -
  let ?a = "demo_scanning [] []"
  have h: "pattern_search (self_format ?a) ''# restarted'' = None"
    by (simp add: demo_defs)
  have after: "scan demo_builtins (?a\<lparr>self_log := [''mid'']\<rparr>) Report_init =
     (None, ?a, \<lparr>entries = [demo_add ''/ab/x'' 200], execution_time = None\<rparr>)"
    by (simp add: demo_defs scan.simps scan_step_def loop_body_def collect_def
        Analyzer_timestamp_def Analyzer_monitor_path_def Report_init_def Report_add_def)
  have upd: "?a\<lparr>self_log := [''# restarted'', ''mid'']\<rparr> = demo_scanning [''# restarted'', ''mid''] []"
    by (simp add: demo_defs)
  from C6_unmatched_line_skipped [OF h, of demo_builtins Report_init "[''mid'']"] h after upd
  show ?thesis
    by simp
qed

subsection \<open>The age window\<close>

text \<open>
  C3: in a call whose clock read \<open>clock\<close>, a matched record whose timestamp is before
  \<open>min_time\<close>, the minute of \<open>clock\<close> minus \<open>max_age\<close> minutes, is left out: the body of
  the loop ends with \<open>continue\<close> and the report as it was, and the scan goes on with the
  next line as if the record were not there.
\<close>

theorem C3_too_old_record_skipped:
  assumes "set_window clock a0 = (a, None)"
    and "pattern_search (self_format a) line = Some match"
    and "entry (self_format a) match = e"
    and "Analyzer_timestamp a (timestamp e) = Inr ts"
    and "ts < replace_second0_microsecond0 clock - 60000000 * self_max_age a0"
  shows "loop_body b a report line = (Continue, report) \<and>
         scan b (a\<lparr>self_log := line # rest\<rparr>) report = scan b (a\<lparr>self_log := rest\<rparr>) report"
proof -
  from assms have "loop_body b a report line = (Continue, report)"
    by (simp add: loop_body_def set_window_fields(2) [OF assms(1)])
  then show ?thesis
    by (simp add: scan_Continue)
qed

theorem C3_too_old_record_skipped_witness:
  "set_window 6050000123 (demo_analyzer [''old'', ''mid''] [] 10) =
     (demo_scanning [''old'', ''mid''] [], None) \<and>
   pattern_search (self_format (demo_scanning [''old'', ''mid''] [])) ''old'' =
     Some (demo_entry ''01:25'' ''/api/v1/foo'' ''200'') \<and>
   Analyzer_timestamp (demo_scanning [''old'', ''mid''] []) ''01:25'' = Inr 5100000000 \<and>
   (5100000000::int) < replace_second0_microsecond0 6050000123 - 60000000 * 10 \<and>
   loop_body demo_builtins (demo_scanning [''old'', ''mid''] []) Report_init ''old'' =
     (Continue, Report_init) \<and>
   scan demo_builtins (demo_scanning [''old'', ''mid''] []) Report_init =
     (None, demo_scanning [] [], \<lparr>entries = [demo_add ''/ab/x'' 200], execution_time = None\<rparr>)"
proof -
  let ?init = "demo_analyzer [''old'', ''mid''] [] 10"
  let ?a = "demo_scanning [''old'', ''mid''] []"
  let ?e = "demo_entry ''01:25'' ''/api/v1/foo'' ''200''"
  have w: "set_window 6050000123 ?init = (?a, None)"
    by (simp add: set_window_def minus_timedelta_minutes_def replace_second0_microsecond0_def
        valid_datetime_def demo_defs)
  have m: "pattern_search (self_format ?a) ''old'' = Some ?e"
    by (simp add: demo_defs)
  have e: "entry (self_format ?a) ?e = ?e"
    by (simp add: demo_defs)
  have t: "Analyzer_timestamp ?a (timestamp ?e) = Inr 5100000000"
    by (simp add: demo_defs Analyzer_timestamp_def)
  have old: "(5100000000::int) < replace_second0_microsecond0 6050000123 - 60000000 * self_max_age ?init"
    by (simp add: replace_second0_microsecond0_def demo_defs)
  have after: "scan demo_builtins (?a\<lparr>self_log := [''mid'']\<rparr>) Report_init =
     (None, demo_scanning [] [], \<lparr>entries = [demo_add ''/ab/x'' 200], execution_time = None\<rparr>)"
    by (simp add: demo_defs scan.simps scan_step_def loop_body_def collect_def
        Analyzer_timestamp_def Analyzer_monitor_path_def Report_init_def Report_add_def)
  have upd: "?a\<lparr>self_log := [''old'', ''mid'']\<rparr> = ?a"
    by (simp add: demo_defs)
  from C3_too_old_record_skipped [OF w m e t old, of demo_builtins Report_init "[''mid'']"]
  have r: "loop_body demo_builtins ?a Report_init ''old'' = (Continue, Report_init) \<and>
     scan demo_builtins ?a Report_init =
       (None, demo_scanning [] [], \<lparr>entries = [demo_add ''/ab/x'' 200], execution_time = None\<rparr>)"
    by (simp add: after upd)
  have old': "(5100000000::int) < replace_second0_microsecond0 6050000123 - 60000000 * 10"
    by (simp add: replace_second0_microsecond0_def)
  have t': "Analyzer_timestamp ?a ''01:25'' = Inr 5100000000"
    by (simp add: demo_defs Analyzer_timestamp_def)
  from w m t' old' r show ?thesis
    by blast
qed

text \<open>
  C4: the window includes both of its ends. In a call whose clock read \<open>clock\<close>, a
  matched record whose timestamp is \<open>min_time\<close>, is the minute of \<open>clock\<close>, or lies
  between the two goes on to \<open>_monitor_path\<close>: the body of the loop ends as the path
  resolution and the call of \<open>report.add\<close> end, never with \<open>break\<close>, and a monitored
  record whose numbers convert is in the report with which the scan goes on.
\<close>

theorem C4_window_inclusive:
  assumes "set_window clock a0 = (a, None)"
    and "pattern_search (self_format a) line = Some match"
    and "entry (self_format a) match = e"
    and "Analyzer_timestamp a (timestamp e) = Inr ts"
    and "replace_second0_microsecond0 clock - 60000000 * self_max_age a0 \<le> ts"
    and "ts \<le> replace_second0_microsecond0 clock"
  shows "loop_body b a report line =
           (case Analyzer_monitor_path a (path e) of
              None \<Rightarrow> (Continue, report)
            | Some p \<Rightarrow>
                (case collect b report p e of
                   Inl err \<Rightarrow> (Raise err, report)
                 | Inr report' \<Rightarrow> (Continue, report'))) \<and>
         fst (loop_body b a report line) \<noteq> Break \<and>
         (Analyzer_monitor_path a (path e) = Some p \<and> collect b report p e = Inr report' \<longrightarrow>
            scan b (a\<lparr>self_log := line # rest\<rparr>) report =
            scan b (a\<lparr>self_log := rest\<rparr>) report')"
proof -
  have body: "loop_body b a report line =
           (case Analyzer_monitor_path a (path e) of
              None \<Rightarrow> (Continue, report)
            | Some p \<Rightarrow>
                (case collect b report p e of
                   Inl err \<Rightarrow> (Raise err, report)
                 | Inr report' \<Rightarrow> (Continue, report')))"
    using assms(2-6)
    by (simp add: loop_body_def set_window_fields(1,2) [OF assms(1)])
  then have "fst (loop_body b a report line) \<noteq> Break"
    by (simp split: option.split sum.split)
  moreover have "scan b (a\<lparr>self_log := line # rest\<rparr>) report =
      scan b (a\<lparr>self_log := rest\<rparr>) report'"
    if "Analyzer_monitor_path a (path e) = Some p" and "collect b report p e = Inr report'"
  proof -
    from body that have "loop_body b a report line = (Continue, report')"
      by simp
    then show ?thesis
      by (rule scan_Continue)
  qed
  ultimately show ?thesis
    using body by blast
qed

theorem C4_window_inclusive_witness:
  "set_window 6050000123 (demo_analyzer [] [] 10) = (demo_scanning [] [], None) \<and>
   replace_second0_microsecond0 6050000123 = 6000000000 \<and>
   replace_second0_microsecond0 6050000123 - 60000000 * 10 = 5400000000 \<and>
   Analyzer_timestamp (demo_scanning [] []) ''01:30'' = Inr 5400000000 \<and>
   Analyzer_timestamp (demo_scanning [] []) ''01:35'' = Inr 5700000000 \<and>
   Analyzer_timestamp (demo_scanning [] []) ''01:40'' = Inr 6000000000 \<and>
   loop_body demo_builtins (demo_scanning [] []) Report_init ''first'' =
     (Continue, \<lparr>entries = [demo_add ''/api/v1/foo'' 200], execution_time = None\<rparr>) \<and>
   loop_body demo_builtins (demo_scanning [] []) Report_init ''mid'' =
     (Continue, \<lparr>entries = [demo_add ''/ab/x'' 200], execution_time = None\<rparr>) \<and>
   loop_body demo_builtins (demo_scanning [] []) Report_init ''last'' =
     (Continue, \<lparr>entries = [demo_add ''/api/v1/foo'' 404], execution_time = None\<rparr>)"
proof -
  let ?init = "demo_analyzer [] [] 10"
  let ?a = "demo_scanning [] []"
  let ?first = "demo_entry ''01:30'' ''/api/v1/foo'' ''200''"
  let ?mid = "demo_entry ''01:35'' ''/ab/x'' ''200''"
  let ?last = "demo_entry ''01:40'' ''/api/v1/foo'' ''404''"
  have w: "set_window 6050000123 ?init = (?a, None)"
    by (simp add: set_window_def minus_timedelta_minutes_def replace_second0_microsecond0_def
        valid_datetime_def demo_defs)
  have now: "replace_second0_microsecond0 6050000123 = 6000000000"
    and min_time: "replace_second0_microsecond0 6050000123 - 60000000 * 10 = 5400000000"
    by (simp_all add: replace_second0_microsecond0_def)
  have age: "self_max_age ?init = 10"
    by (simp add: demo_defs)
  have m: "pattern_search (self_format ?a) ''first'' = Some ?first"
    "pattern_search (self_format ?a) ''mid'' = Some ?mid"
    "pattern_search (self_format ?a) ''last'' = Some ?last"
    by (simp_all add: demo_defs)
  have e: "entry (self_format ?a) x = x" for x
    by (simp add: demo_defs)
  have t: "Analyzer_timestamp ?a (timestamp ?first) = Inr 5400000000"
    "Analyzer_timestamp ?a (timestamp ?mid) = Inr 5700000000"
    "Analyzer_timestamp ?a (timestamp ?last) = Inr 6000000000"
    by (simp_all add: demo_defs Analyzer_timestamp_def)
  have t': "Analyzer_timestamp ?a ''01:30'' = Inr 5400000000"
    "Analyzer_timestamp ?a ''01:35'' = Inr 5700000000"
    "Analyzer_timestamp ?a ''01:40'' = Inr 6000000000"
    by (simp_all add: demo_defs Analyzer_timestamp_def)
  have p: "Analyzer_monitor_path ?a q = Some q" for q
    by (simp add: demo_defs Analyzer_monitor_path_def)
  have c: "collect demo_builtins Report_init (path ?first) ?first =
        Inr \<lparr>entries = [demo_add ''/api/v1/foo'' 200], execution_time = None\<rparr>"
    "collect demo_builtins Report_init (path ?mid) ?mid =
        Inr \<lparr>entries = [demo_add ''/ab/x'' 200], execution_time = None\<rparr>"
    "collect demo_builtins Report_init (path ?last) ?last =
        Inr \<lparr>entries = [demo_add ''/api/v1/foo'' 404], execution_time = None\<rparr>"
    by (simp_all add: demo_defs collect_def Report_init_def Report_add_def)
  have r1: "loop_body demo_builtins ?a Report_init ''first'' =
     (Continue, \<lparr>entries = [demo_add ''/api/v1/foo'' 200], execution_time = None\<rparr>)"
    using C4_window_inclusive [OF w m(1) e t(1), of demo_builtins Report_init]
    by (simp add: now age p c)
  have r2: "loop_body demo_builtins ?a Report_init ''mid'' =
     (Continue, \<lparr>entries = [demo_add ''/ab/x'' 200], execution_time = None\<rparr>)"
    using C4_window_inclusive [OF w m(2) e t(2), of demo_builtins Report_init]
    by (simp add: now age p c)
  have r3: "loop_body demo_builtins ?a Report_init ''last'' =
     (Continue, \<lparr>entries = [demo_add ''/api/v1/foo'' 404], execution_time = None\<rparr>)"
    using C4_window_inclusive [OF w m(3) e t(3), of demo_builtins Report_init]
    by (simp add: now age p c)
  from w now min_time t' r1 r2 r3 show ?thesis
    by blast
qed

text \<open>
  C2, as it holds: in a call whose clock read \<open>clock\<close>, the scan stops at a matched
  record whose timestamp is after the minute of \<open>clock\<close> and not before \<open>min_time\<close>,
  which is so for every timestamp after the minute of \<open>clock\<close> when \<open>max_age\<close> is not
  negative. The body of the loop ends with \<open>break\<close>, the report is as it was, the
  lines after the record stay in the file handle and the result of the scan does not
  depend on them. The test for a record that is too old comes first in the loop: with
  a negative \<open>max_age\<close> a record between the minute of \<open>clock\<close> and \<open>min_time\<close> is
  skipped and the scan goes on to the lines after it.
\<close>

theorem C2_future_record_stops_scan:
  assumes "set_window clock a0 = (a, None)"
    and "pattern_search (self_format a) line = Some match"
    and "entry (self_format a) match = e"
    and "Analyzer_timestamp a (timestamp e) = Inr ts"
    and "replace_second0_microsecond0 clock < ts"
    and "0 \<le> self_max_age a0 \<or>
         replace_second0_microsecond0 clock - 60000000 * self_max_age a0 \<le> ts"
  shows "loop_body b a report line = (Break, report) \<and>
         scan b (a\<lparr>self_log := line # rest\<rparr>) report = (None, a\<lparr>self_log := rest\<rparr>, report)"
proof -
  from assms(5,6) have "\<not> ts < replace_second0_microsecond0 clock - 60000000 * self_max_age a0"
    by auto
  with assms(2-5) have "loop_body b a report line = (Break, report)"
    by (simp add: loop_body_def set_window_fields(1,2) [OF assms(1)])
  then show ?thesis
    by (simp add: scan_Break)
qed

theorem C2_future_record_stops_scan_witness:
  "set_window 6050000123 (demo_analyzer [''future'', ''badtime''] [] 10) =
     (demo_scanning [''future'', ''badtime''] [], None) \<and>
   pattern_search (self_format (demo_scanning [''future'', ''badtime''] [])) ''future'' =
     Some (demo_entry ''01:41'' ''/api/v1/foo'' ''200'') \<and>
   Analyzer_timestamp (demo_scanning [''future'', ''badtime''] []) ''01:41'' = Inr 6060000000 \<and>
   replace_second0_microsecond0 6050000123 < 6060000000 \<and>
   (0::int) \<le> 10 \<and>
   loop_body demo_builtins (demo_scanning [''future'', ''badtime''] []) Report_init ''future'' =
     (Break, Report_init) \<and>
   scan demo_builtins (demo_scanning [''future'', ''badtime''] []) Report_init =
     (None, demo_scanning [''badtime''] [], Report_init)"
proof -
  let ?init = "demo_analyzer [''future'', ''badtime''] [] 10"
  let ?a = "demo_scanning [''future'', ''badtime''] []"
  let ?e = "demo_entry ''01:41'' ''/api/v1/foo'' ''200''"
  have w: "set_window 6050000123 ?init = (?a, None)"
    by (simp add: set_window_def minus_timedelta_minutes_def replace_second0_microsecond0_def
        valid_datetime_def demo_defs)
  have m: "pattern_search (self_format ?a) ''future'' = Some ?e"
    by (simp add: demo_defs)
  have e: "entry (self_format ?a) ?e = ?e"
    by (simp add: demo_defs)
  have t: "Analyzer_timestamp ?a (timestamp ?e) = Inr 6060000000"
    and t': "Analyzer_timestamp ?a ''01:41'' = Inr 6060000000"
    by (simp_all add: demo_defs Analyzer_timestamp_def)
  have future: "replace_second0_microsecond0 6050000123 < 6060000000"
    by (simp add: replace_second0_microsecond0_def)
  have age: "0 \<le> self_max_age ?init \<or>
      replace_second0_microsecond0 6050000123 - 60000000 * self_max_age ?init \<le> 6060000000"
    by (simp add: demo_defs)
  have upd: "?a\<lparr>self_log := [''future'', ''badtime'']\<rparr> = ?a"
    "?a\<lparr>self_log := [''badtime'']\<rparr> = demo_scanning [''badtime''] []"
    by (simp_all add: demo_defs)
  from C2_future_record_stops_scan [OF w m e t future age, of demo_builtins Report_init
      "[''badtime'']"]
  have r: "loop_body demo_builtins ?a Report_init ''future'' = (Break, Report_init) \<and>
     scan demo_builtins ?a Report_init = (None, demo_scanning [''badtime''] [], Report_init)"
    by (simp add: upd)
  have "(0::int) \<le> 10"
    by simp
  with w m t' future r show ?thesis
    by blast
qed

text \<open>
  C2 as the claim words it fails for a negative \<open>max_age\<close>. The clock reads 01:40:50
  and \<open>max_age\<close> is -10, so that \<open>min_time\<close> is 01:50. The record of 01:41 is after the
  minute of the clock, and the scan does not stop at it: it skips the record, takes the
  next line from the file handle and raises on the timestamp of that line.
\<close>

theorem C2_counterexample:
  "set_window 6050000123 (demo_analyzer [''future'', ''badtime''] [] (- 10)) =
     ((demo_analyzer [''future'', ''badtime''] [] (- 10))
        \<lparr>self_now := Some 6000000000, self_min_time := Some 6600000000\<rparr>, None) \<and>
   pattern_search (self_format (demo_analyzer [''future'', ''badtime''] [] (- 10))) ''future'' =
     Some (demo_entry ''01:41'' ''/api/v1/foo'' ''200'') \<and>
   Analyzer_timestamp (demo_analyzer [''future'', ''badtime''] [] (- 10)) ''01:41'' =
     Inr 6060000000 \<and>
   replace_second0_microsecond0 6050000123 < 6060000000 \<and>
   loop_body demo_builtins
     ((demo_analyzer [''future'', ''badtime''] [] (- 10))
        \<lparr>self_now := Some 6000000000, self_min_time := Some 6600000000\<rparr>)
     Report_init ''future'' = (Continue, Report_init) \<and>
   scan demo_builtins
     ((demo_analyzer [''future'', ''badtime''] [] (- 10))
        \<lparr>self_now := Some 6000000000, self_min_time := Some 6600000000\<rparr>)
     Report_init =
     (Some ValueError,
      (demo_analyzer [] [] (- 10))\<lparr>self_now := Some 6000000000, self_min_time := Some 6600000000\<rparr>,
      Report_init) \<and>
   Analyzer_call demo_builtins 6050000123 0 (demo_analyzer [''future'', ''badtime''] [] (- 10)) =
     ((demo_analyzer [] [] (- 10))\<lparr>self_now := Some 6000000000, self_min_time := Some 6600000000\<rparr>,
      Raised ValueError (Some Report_init))"
  by (simp add: Analyzer_call_def set_window_def minus_timedelta_minutes_def
      replace_second0_microsecond0_def valid_datetime_def demo_defs scan.simps scan_step_def
      loop_body_def Analyzer_timestamp_def Report_init_def)

subsection \<open>Malformed fields\<close>

text \<open>A conversion that fails makes the call of \<open>report.add\<close> raise.\<close>

lemma collect_malformed:
  assumes "int_py b (status e) = Inl e1 \<or> float_py b (request_time e) = Inl e2 \<or>
           float_py b (upstream_response_time e) = Inl e3 \<or>
           int_py b (body_bytes_sent e) = Inl e4"
  shows "\<exists>err. collect b report p e = Inl err"
  using assms by (auto simp: collect_def split: sum.splits)

text \<open>
  C7: a matched line whose timestamp the time format does not describe, or a matched
  line inside the window with a monitored path one of whose four numeric fields does
  not convert, ends the scan with the exception of that conversion. The lines after it
  stay in the file handle, and the report is the report as it was before the line: no
  call of \<open>add\<close> that an earlier line made is undone.
\<close>

theorem C7_malformed_field_aborts:
  assumes "pattern_search (self_format a) line = Some match"
    and "entry (self_format a) match = e"
  shows "(Analyzer_timestamp a (timestamp e) = Inl err \<longrightarrow>
            loop_body b a report line = (Raise err, report) \<and>
            scan b (a\<lparr>self_log := line # rest\<rparr>) report =
              (Some err, a\<lparr>self_log := rest\<rparr>, report)) \<and>
         (Analyzer_timestamp a (timestamp e) = Inr ts \<and>
          self_min_time a = Some min_time \<and> self_now a = Some now \<and>
          min_time \<le> ts \<and> ts \<le> now \<and> Analyzer_monitor_path a (path e) = Some p \<and>
          (int_py b (status e) = Inl e1 \<or> float_py b (request_time e) = Inl e2 \<or>
           float_py b (upstream_response_time e) = Inl e3 \<or>
           int_py b (body_bytes_sent e) = Inl e4) \<longrightarrow>
            (\<exists>err'. collect b report p e = Inl err' \<and>
               loop_body b a report line = (Raise err', report) \<and>
               scan b (a\<lparr>self_log := line # rest\<rparr>) report =
                 (Some err', a\<lparr>self_log := rest\<rparr>, report)))"
proof (intro conjI impI)
  assume "Analyzer_timestamp a (timestamp e) = Inl err"
  with assms show body: "loop_body b a report line = (Raise err, report)"
    by (simp add: loop_body_def)
  then show "scan b (a\<lparr>self_log := line # rest\<rparr>) report =
      (Some err, a\<lparr>self_log := rest\<rparr>, report)"
    by (rule scan_Raise)
next
  assume h: "Analyzer_timestamp a (timestamp e) = Inr ts \<and>
          self_min_time a = Some min_time \<and> self_now a = Some now \<and>
          min_time \<le> ts \<and> ts \<le> now \<and> Analyzer_monitor_path a (path e) = Some p \<and>
          (int_py b (status e) = Inl e1 \<or> float_py b (request_time e) = Inl e2 \<or>
           float_py b (upstream_response_time e) = Inl e3 \<or>
           int_py b (body_bytes_sent e) = Inl e4)"
  then obtain err' where c: "collect b report p e = Inl err'"
    using collect_malformed [of b e e1 e2 e3 e4 report p] by blast
  with assms h have body: "loop_body b a report line = (Raise err', report)"
    by (simp add: loop_body_def)
  then have "scan b (a\<lparr>self_log := line # rest\<rparr>) report =
      (Some err', a\<lparr>self_log := rest\<rparr>, report)"
    by (rule scan_Raise)
  with c body show "\<exists>err'. collect b report p e = Inl err' \<and>
               loop_body b a report line = (Raise err', report) \<and>
               scan b (a\<lparr>self_log := line # rest\<rparr>) report =
                 (Some err', a\<lparr>self_log := rest\<rparr>, report)"
    by blast
qed

theorem C7_malformed_field_aborts_witness:
  "pattern_search (self_format (demo_scanning [] [''/api''])) ''badtime'' =
     Some (demo_entry ''25:99'' ''/api/v1/foo'' ''200'') \<and>
   Analyzer_timestamp (demo_scanning [] [''/api'']) ''25:99'' = Inl ValueError \<and>
   scan demo_builtins (demo_scanning [''badtime'', ''mid''] [''/api''])
       \<lparr>entries = [demo_add ''/api'' 200], execution_time = None\<rparr> =
     (Some ValueError, demo_scanning [''mid''] [''/api''],
      \<lparr>entries = [demo_add ''/api'' 200], execution_time = None\<rparr>) \<and>
   pattern_search (self_format (demo_scanning [] [''/api''])) ''badstatus'' =
     Some (demo_entry ''01:35'' ''/api/v1/foo'' ''2oo'') \<and>
   Analyzer_timestamp (demo_scanning [] [''/api'']) ''01:35'' = Inr 5700000000 \<and>
   Analyzer_monitor_path (demo_scanning [] [''/api'']) ''/api/v1/foo'' = Some ''/api'' \<and>
   int_py demo_builtins ''2oo'' = Inl ValueError \<and>
   scan demo_builtins (demo_scanning [''badstatus'', ''mid''] [''/api''])
       \<lparr>entries = [demo_add ''/api'' 200], execution_time = None\<rparr> =
     (Some ValueError, demo_scanning [''mid''] [''/api''],
      \<lparr>entries = [demo_add ''/api'' 200], execution_time = None\<rparr>)"
proof -
  let ?a = "demo_scanning [] [''/api'']"
  let ?bt = "demo_entry ''25:99'' ''/api/v1/foo'' ''200''"
  let ?bs = "demo_entry ''01:35'' ''/api/v1/foo'' ''2oo''"
  let ?r = "\<lparr>entries = [demo_add ''/api'' 200], execution_time = None\<rparr>"
  have m1: "pattern_search (self_format ?a) ''badtime'' = Some ?bt"
    and m2: "pattern_search (self_format ?a) ''badstatus'' = Some ?bs"
    by (simp_all add: demo_defs)
  have e: "entry (self_format ?a) x = x" for x
    by (simp add: demo_defs)
  have t1: "Analyzer_timestamp ?a (timestamp ?bt) = Inl ValueError"
    and t1': "Analyzer_timestamp ?a ''25:99'' = Inl ValueError"
    and t2': "Analyzer_timestamp ?a ''01:35'' = Inr 5700000000"
    by (simp_all add: demo_defs Analyzer_timestamp_def)
  have mp: "Analyzer_monitor_path ?a ''/api/v1/foo'' = Some ''/api''"
    by (simp add: demo_defs Analyzer_monitor_path_def startswith_def)
  have bad: "int_py demo_builtins ''2oo'' = Inl ValueError"
    by (simp add: demo_defs)
  have h2: "Analyzer_timestamp ?a (timestamp ?bs) = Inr 5700000000 \<and>
          self_min_time ?a = Some 5400000000 \<and> self_now ?a = Some 6000000000 \<and>
          (5400000000::int) \<le> 5700000000 \<and> (5700000000::int) \<le> 6000000000 \<and>
          Analyzer_monitor_path ?a (path ?bs) = Some ''/api'' \<and>
          (int_py demo_builtins (status ?bs) = Inl ValueError \<or>
           float_py demo_builtins (request_time ?bs) = Inl ValueError \<or>
           float_py demo_builtins (upstream_response_time ?bs) = Inl ValueError \<or>
           int_py demo_builtins (body_bytes_sent ?bs) = Inl ValueError)"
    by (simp add: demo_defs Analyzer_timestamp_def Analyzer_monitor_path_def startswith_def)
  have c: "collect demo_builtins ?r ''/api'' ?bs = Inl ValueError"
    by (simp add: demo_defs collect_def)
  have upd: "?a\<lparr>self_log := [''badtime'', ''mid'']\<rparr> = demo_scanning [''badtime'', ''mid''] [''/api'']"
    "?a\<lparr>self_log := [''badstatus'', ''mid'']\<rparr> = demo_scanning [''badstatus'', ''mid''] [''/api'']"
    "?a\<lparr>self_log := [''mid'']\<rparr> = demo_scanning [''mid''] [''/api'']"
    by (simp_all add: demo_defs)
  from C7_malformed_field_aborts [OF m1 e, of ValueError demo_builtins ?r "[''mid'']"] t1
  have r1: "scan demo_builtins (demo_scanning [''badtime'', ''mid''] [''/api'']) ?r =
     (Some ValueError, demo_scanning [''mid''] [''/api''], ?r)"
    by (simp add: upd)
  from C7_malformed_field_aborts [where ts = 5700000000 and min_time = 5400000000
      and now = 6000000000 and p = "''/api''" and b = demo_builtins and ?e1.0 = ValueError
      and ?e2.0 = ValueError and ?e3.0 = ValueError and ?e4.0 = ValueError and report = ?r
      and rest = "[''mid'']", OF m2 e] h2
  have "\<exists>err'. collect demo_builtins ?r ''/api'' ?bs = Inl err' \<and>
      scan demo_builtins (demo_scanning [''badstatus'', ''mid''] [''/api'']) ?r =
     (Some err', demo_scanning [''mid''] [''/api''], ?r)"
    by (simp add: upd) blast
  with c have r2: "scan demo_builtins (demo_scanning [''badstatus'', ''mid''] [''/api'']) ?r =
     (Some ValueError, demo_scanning [''mid''] [''/api''], ?r)"
    by auto
  from m1 t1' r1 m2 t2' mp bad r2 show ?thesis
    by blast
qed

subsection \<open>Configuration\<close>

text \<open>
  C5: with a format that is None or the empty string, \<open>__init__\<close> raises
  MissingFormatError, whatever the log holds: nothing of the log enters the result.
  With any other format \<open>__init__\<close> raises nothing and gives an analyzer whose file
  handle still has every line of the log.
\<close>

theorem C5_missing_format:
  "(format = None \<or> format = Some [] \<longrightarrow>
      Analyzer_init all_formats custom logfile format paths max_age = Inl MissingFormatError) \<and>
   (format = Some f \<and> f \<noteq> [] \<longrightarrow>
      (\<exists>a. Analyzer_init all_formats custom logfile format paths max_age = Inr a \<and>
           self_log a = logfile))"
  by (auto simp: Analyzer_init_def)

theorem C5_missing_format_witness:
  "Analyzer_init [''demo'' \<mapsto> demo_format] (\<lambda>f. demo_format\<lparr>name := ''custom''\<rparr>)
     [''first'', ''mid''] None [] 10 = Inl MissingFormatError \<and>
   Analyzer_init [''demo'' \<mapsto> demo_format] (\<lambda>f. demo_format\<lparr>name := ''custom''\<rparr>)
     [''first'', ''mid''] (Some []) [] 10 = Inl MissingFormatError \<and>
   (\<exists>a. Analyzer_init [''demo'' \<mapsto> demo_format] (\<lambda>f. demo_format\<lparr>name := ''custom''\<rparr>)
          [''first'', ''mid''] (Some ''demo'') [] 10 = Inr a \<and>
        self_log a = [''first'', ''mid'']) \<and>
   Analyzer_init [''demo'' \<mapsto> demo_format] (\<lambda>f. demo_format\<lparr>name := ''custom''\<rparr>)
     [''first'', ''mid''] (Some ''demo'') [] 10 = Inr (demo_analyzer [''first'', ''mid''] [] 10)"
proof -
  let ?formats = "[''demo'' \<mapsto> demo_format]"
  let ?custom = "\<lambda>f::string. demo_format\<lparr>name := ''custom''\<rparr>"
  let ?log = "[''first'', ''mid'']"
  have absent: "Analyzer_init ?formats ?custom ?log None [] 10 = Inl MissingFormatError"
    using C5_missing_format [of None ?formats ?custom ?log "[]" 10] by simp
  have empty: "Analyzer_init ?formats ?custom ?log (Some []) [] 10 = Inl MissingFormatError"
    using C5_missing_format [of "Some []" ?formats ?custom ?log "[]" 10] by simp
  have given: "\<exists>a. Analyzer_init ?formats ?custom ?log (Some ''demo'') [] 10 = Inr a \<and>
      self_log a = ?log"
    using C5_missing_format [of "Some ''demo''" ?formats ?custom ?log "[]" 10 "''demo''"]
    by simp
  have val: "Analyzer_init ?formats ?custom ?log (Some ''demo'') [] 10 =
      Inr (demo_analyzer ?log [] 10)"
    by (simp add: Analyzer_init_def demo_analyzer_def)
  from absent empty given val show ?thesis
    by blast
qed

subsection \<open>The paths that reach the report\<close>

text \<open>What one turn of the loop does to the state of the loop.\<close>

lemma scan_step_Inl:
  assumes "scan_step b (a, report) = Inl (a', report')"
  shows "\<exists>line rest. self_log a = line # rest \<and> a' = a\<lparr>self_log := rest\<rparr> \<and>
           loop_body b a report line = (Continue, report')"
  using assms
  by (auto simp: scan_step_def Let_def split: list.splits prod.splits control.splits)

lemma scan_step_Inr:
  assumes "scan_step b (a, report) = Inr (x, a', report')"
  shows "(self_log a = [] \<and> a' = a \<and> report' = report) \<or>
         (\<exists>line rest ctl. self_log a = line # rest \<and> a' = a\<lparr>self_log := rest\<rparr> \<and>
            loop_body b a report line = (ctl, report'))"
  using assms
  by (auto simp: scan_step_def Let_def split: list.splits prod.splits control.splits)

text \<open>The body of the loop adds at most one call, under the path that \<open>_monitor_path\<close> gave.\<close>

lemma collect_entries:
  assumes "collect b report p e = Inr report'"
  shows "\<exists>c. entries report' = entries report @ [c] \<and> add_path c = p"
  using assms by (auto simp: collect_def Report_add_def split: sum.splits)

lemma loop_body_entries:
  assumes "loop_body b a report line = (ctl, report')"
  shows "report' = report \<or>
         (\<exists>match c. pattern_search (self_format a) line = Some match \<and>
            Analyzer_monitor_path a (path (entry (self_format a) match)) = Some (add_path c) \<and>
            entries report' = entries report @ [c])"
  using assms
  by (auto simp: loop_body_def Let_def split: option.splits sum.splits if_splits
      dest: collect_entries)

text \<open>
  A path that \<open>_monitor_path\<close> gives for a record of the log is the path of the record
  if no paths are configured, and a configured path otherwise.
\<close>

lemma monitor_path_cases:
  assumes "Analyzer_monitor_path a q = Some p"
  shows "(self_pathconf a = [] \<and> p = q) \<or> (self_pathconf a \<noteq> [] \<and> p \<in> set (self_pathconf a))"
  using assms
  by (auto simp: Analyzer_monitor_path_def first_monitored_Some_iff split: if_splits)

lemma scan_entries:
  assumes "scan b a report = (x, a', report')"
  shows "\<exists>new. entries report' = entries report @ new \<and>
           (\<forall>c\<in>set new.
              (self_pathconf a = [] \<and>
               (\<exists>line\<in>set (self_log a). \<exists>match.
                  pattern_search (self_format a) line = Some match \<and>
                  add_path c = path (entry (self_format a) match))) \<or>
              (self_pathconf a \<noteq> [] \<and> add_path c \<in> set (self_pathconf a)))"
  using assms
proof (induction b a report arbitrary: x a' report' rule: scan.induct)
  case (1 b a report)
  let ?ok = "\<lambda>lines c.
      (self_pathconf a = [] \<and>
       (\<exists>line\<in>set lines. \<exists>match.
          pattern_search (self_format a) line = Some match \<and>
          add_path c = path (entry (self_format a) match))) \<or>
      (self_pathconf a \<noteq> [] \<and> add_path c \<in> set (self_pathconf a))"
  have one: "\<exists>new. entries r = entries report @ new \<and> (\<forall>c\<in>set new. ?ok (line # rest) c)"
    if "loop_body b a report line = (ctl, r)" for line rest ctl r
  proof -
    from loop_body_entries [OF that] show ?thesis
    proof
      assume "r = report"
      then have "entries r = entries report @ [] \<and> (\<forall>c\<in>set []. ?ok (line # rest) c)"
        by simp
      then show ?thesis by blast
    next
      assume "\<exists>match c. pattern_search (self_format a) line = Some match \<and>
            Analyzer_monitor_path a (path (entry (self_format a) match)) = Some (add_path c) \<and>
            entries r = entries report @ [c]"
      then obtain match c where m: "pattern_search (self_format a) line = Some match"
        and p: "Analyzer_monitor_path a (path (entry (self_format a) match)) = Some (add_path c)"
        and r: "entries r = entries report @ [c]"
        by blast
      from monitor_path_cases [OF p] m have "?ok (line # rest) c"
        by auto
      with r show ?thesis
        by auto
    qed
  qed
  show ?case
  proof (cases "scan_step b (a, report)")
    case (Inl s)
    obtain a1 r1 where s: "s = (a1, r1)"
      by (cases s)
    from Inl s scan_step_Inl [of b a report a1 r1] obtain line rest where
      l: "self_log a = line # rest" and a1: "a1 = a\<lparr>self_log := rest\<rparr>"
      and body: "loop_body b a report line = (Continue, r1)"
      by auto
    from "1.prems" Inl s have "scan b a1 r1 = (x, a', report')"
      by (subst (asm) scan.simps) simp
    with "1.IH" [OF Inl s [symmetric]] obtain new where
      n: "entries report' = entries r1 @ new"
      and ok: "\<forall>c\<in>set new. ?ok rest c"
      unfolding a1 by auto
    from one [OF body, of rest] obtain new0 where
      n0: "entries r1 = entries report @ new0" and ok0: "\<forall>c\<in>set new0. ?ok (line # rest) c"
      by blast
    from ok have ok': "\<forall>c\<in>set new. ?ok (line # rest) c"
      by auto
    from n n0 have "entries report' = entries report @ (new0 @ new)"
      by simp
    moreover from ok0 ok' have "\<forall>c\<in>set (new0 @ new). ?ok (line # rest) c"
      by auto
    ultimately show ?thesis
      unfolding l by blast
  next
    case (Inr res)
    with "1.prems" have res: "scan_step b (a, report) = Inr (x, a', report')"
      by (subst (asm) scan.simps) simp
    from scan_step_Inr [OF res] show ?thesis
    proof
      assume "self_log a = [] \<and> a' = a \<and> report' = report"
      then have "entries report' = entries report @ [] \<and> (\<forall>c\<in>set []. ?ok (self_log a) c)"
        by simp
      then show ?thesis by blast
    next
      assume "\<exists>line rest ctl. self_log a = line # rest \<and> a' = a\<lparr>self_log := rest\<rparr> \<and>
            loop_body b a report line = (ctl, report')"
      then obtain line rest ctl where l: "self_log a = line # rest"
        and body: "loop_body b a report line = (ctl, report')"
        by blast
      from one [OF body, of rest] show ?thesis
        unfolding l by blast
    qed
  qed
qed

text \<open>
  C10: every call of \<open>add\<close> has for its path the full request path of the record it is
  made for when no paths are configured, and one of the configured paths when some
  are. This holds for the one call that a turn of the loop can make for its line, and so
  for every entry of the report that a call of the analyzer returns, or of the report
  as it is when an exception ends the call.
\<close>

theorem C10_forwarded_paths:
  "(loop_body b a report line = (ctl, report') \<longrightarrow>
      report' = report \<or>
      (\<exists>match c. pattern_search (self_format a) line = Some match \<and>
         entries report' = entries report @ [c] \<and>
         ((self_pathconf a = [] \<and> add_path c = path (entry (self_format a) match)) \<or>
          (self_pathconf a \<noteq> [] \<and> add_path c \<in> set (self_pathconf a))))) \<and>
   (Analyzer_call b clock elapsed a0 = (a', out) \<and>
    (out = Returned r \<or> out = Raised err (Some r)) \<and> c \<in> set (entries r) \<longrightarrow>
      (self_pathconf a0 = [] \<and>
       (\<exists>line\<in>set (self_log a0). \<exists>match.
          pattern_search (self_format a0) line = Some match \<and>
          add_path c = path (entry (self_format a0) match))) \<or>
      (self_pathconf a0 \<noteq> [] \<and> add_path c \<in> set (self_pathconf a0)))"
proof (intro conjI impI)
  assume body: "loop_body b a report line = (ctl, report')"
  from loop_body_entries [OF body]
  show "report' = report \<or>
      (\<exists>match c. pattern_search (self_format a) line = Some match \<and>
         entries report' = entries report @ [c] \<and>
         ((self_pathconf a = [] \<and> add_path c = path (entry (self_format a) match)) \<or>
          (self_pathconf a \<noteq> [] \<and> add_path c \<in> set (self_pathconf a))))"
  proof
    assume "report' = report"
    then show ?thesis ..
  next
    assume "\<exists>match c. pattern_search (self_format a) line = Some match \<and>
        Analyzer_monitor_path a (path (entry (self_format a) match)) = Some (add_path c) \<and>
        entries report' = entries report @ [c]"
    then obtain match c where m: "pattern_search (self_format a) line = Some match"
      and p: "Analyzer_monitor_path a (path (entry (self_format a) match)) = Some (add_path c)"
      and r: "entries report' = entries report @ [c]"
      by blast
    from monitor_path_cases [OF p] m r show ?thesis
      by blast
  qed
next
  assume h: "Analyzer_call b clock elapsed a0 = (a', out) \<and>
    (out = Returned r \<or> out = Raised err (Some r)) \<and> c \<in> set (entries r)"
  obtain a1 w where w: "set_window clock a0 = (a1, w)"
    by (cases "set_window clock a0")
  from h w have none: "w = None"
    by (cases w) (auto simp: Analyzer_call_def)
  obtain x a2 r2 where s: "scan b a1 Report_init = (x, a2, r2)"
    by (cases "scan b a1 Report_init") auto
  from h w none s have "entries r = entries r2"
    by (cases x) (auto simp: Analyzer_call_def)
  with scan_entries [OF s] h have
    "(self_pathconf a1 = [] \<and>
          (\<exists>line\<in>set (self_log a1). \<exists>match.
             pattern_search (self_format a1) line = Some match \<and>
             add_path c = path (entry (self_format a1) match))) \<or>
         (self_pathconf a1 \<noteq> [] \<and> add_path c \<in> set (self_pathconf a1))"
    by (auto simp: Report_init_def)
  with w none show "(self_pathconf a0 = [] \<and>
       (\<exists>line\<in>set (self_log a0). \<exists>match.
          pattern_search (self_format a0) line = Some match \<and>
          add_path c = path (entry (self_format a0) match))) \<or>
      (self_pathconf a0 \<noteq> [] \<and> add_path c \<in> set (self_pathconf a0))"
    by (simp add: set_window_fields)
qed

theorem C10_forwarded_paths_witness:
  "loop_body demo_builtins (demo_scanning [] [''/a'', ''/ab'']) Report_init ''mid'' =
     (Continue, \<lparr>entries = [demo_add ''/a'' 200], execution_time = None\<rparr>) \<and>
   (\<exists>match c. pattern_search (self_format (demo_scanning [] [''/a'', ''/ab''])) ''mid'' =
        Some match \<and>
      [demo_add ''/a'' 200] = [c] \<and>
      add_path c \<in> set (self_pathconf (demo_scanning [] [''/a'', ''/ab'']))) \<and>
   Analyzer_call demo_builtins 6050000123 0 (demo_analyzer [''mid''] [''/a'', ''/ab''] 10) =
     (demo_scanning [] [''/a'', ''/ab''],
      Returned \<lparr>entries = [demo_add ''/a'' 200], execution_time = Some 0\<rparr>) \<and>
   self_pathconf (demo_analyzer [''mid''] [''/a'', ''/ab''] 10) \<noteq> [] \<and>
   add_path (demo_add ''/a'' 200) \<in> set (self_pathconf (demo_analyzer [''mid''] [''/a'', ''/ab''] 10)) \<and>
   Analyzer_call demo_builtins 6050000123 0 (demo_analyzer [''mid'', ''badstatus''] [] 10) =
     (demo_scanning [] [],
      Raised ValueError (Some \<lparr>entries = [demo_add ''/ab/x'' 200], execution_time = None\<rparr>)) \<and>
   self_pathconf (demo_analyzer [''mid'', ''badstatus''] [] 10) = [] \<and>
   (\<exists>line\<in>set (self_log (demo_analyzer [''mid'', ''badstatus''] [] 10)). \<exists>match.
      pattern_search (self_format (demo_analyzer [''mid'', ''badstatus''] [] 10)) line =
        Some match \<and>
      add_path (demo_add ''/ab/x'' 200) =
        path (entry (self_format (demo_analyzer [''mid'', ''badstatus''] [] 10)) match))"
proof -
  let ?a = "demo_scanning [] [''/a'', ''/ab'']"
  let ?conf = "demo_analyzer [''mid''] [''/a'', ''/ab''] 10"
  let ?all = "demo_analyzer [''mid'', ''badstatus''] [] 10"
  let ?r0 = "\<lparr>entries = [demo_add ''/a'' 200], execution_time = (None::real option)\<rparr>"
  let ?r1 = "\<lparr>entries = [demo_add ''/a'' 200], execution_time = Some (0::real)\<rparr>"
  let ?r2 = "\<lparr>entries = [demo_add ''/ab/x'' 200], execution_time = (None::real option)\<rparr>"
  have body: "loop_body demo_builtins ?a Report_init ''mid'' = (Continue, ?r0)"
    by (simp add: demo_defs loop_body_def collect_def Analyzer_timestamp_def
      Analyzer_monitor_path_def startswith_def Report_init_def Report_add_def)
  have call1: "Analyzer_call demo_builtins 6050000123 0 ?conf =
      (demo_scanning [] [''/a'', ''/ab''], Returned ?r1)"
    by (simp add: Analyzer_call_def set_window_def minus_timedelta_minutes_def
      replace_second0_microsecond0_def valid_datetime_def demo_defs scan.simps scan_step_def
      loop_body_def collect_def Analyzer_timestamp_def Analyzer_monitor_path_def startswith_def
      Report_init_def Report_add_def)
  have call2: "Analyzer_call demo_builtins 6050000123 0 ?all =
      (demo_scanning [] [], Raised ValueError (Some ?r2))"
    by (simp add: Analyzer_call_def set_window_def minus_timedelta_minutes_def
      replace_second0_microsecond0_def valid_datetime_def demo_defs scan.simps scan_step_def
      loop_body_def collect_def Analyzer_timestamp_def Analyzer_monitor_path_def startswith_def
      Report_init_def Report_add_def)
  have conf0: "self_pathconf ?a \<noteq> []" and conf1: "self_pathconf ?conf \<noteq> []"
    and conf2: "self_pathconf ?all = []"
    by (simp_all add: demo_defs)
  have changed: "?r0 \<noteq> Report_init"
    by (simp add: Report_init_def)
  have in1: "demo_add ''/a'' 200 \<in> set (entries ?r1)"
    and in2: "demo_add ''/ab/x'' 200 \<in> set (entries ?r2)"
    by simp_all
  from C10_forwarded_paths [where b = demo_builtins and a = ?a and report = Report_init
      and line = "''mid''" and ctl = Continue and report' = ?r0, THEN conjunct1] body changed conf0
  have p0: "\<exists>match c. pattern_search (self_format ?a) ''mid'' = Some match \<and>
      [demo_add ''/a'' 200] = [c] \<and> add_path c \<in> set (self_pathconf ?a)"
    by (simp add: Report_init_def)
  from C10_forwarded_paths [where b = demo_builtins and clock = 6050000123 and elapsed = 0
      and ?a0.0 = ?conf and a' = "demo_scanning [] [''/a'', ''/ab'']" and out = "Returned ?r1"
      and r = ?r1 and c = "demo_add ''/a'' 200", THEN conjunct2] call1 in1 conf1
  have p1: "add_path (demo_add ''/a'' 200) \<in> set (self_pathconf ?conf)"
    by simp
  from C10_forwarded_paths [where b = demo_builtins and clock = 6050000123 and elapsed = 0
      and ?a0.0 = ?all and a' = "demo_scanning [] []" and out = "Raised ValueError (Some ?r2)"
      and r = ?r2 and err = ValueError and c = "demo_add ''/ab/x'' 200", THEN conjunct2]
    call2 in2 conf2
  have p2: "\<exists>line\<in>set (self_log ?all). \<exists>match.
      pattern_search (self_format ?all) line = Some match \<and>
      add_path (demo_add ''/ab/x'' 200) = path (entry (self_format ?all) match)"
    by simp
  from body p0 call1 conf1 p1 call2 conf2 p2 show ?thesis
    by (intro conjI)
qed

subsection \<open>The window stays as the call set it\<close>

text \<open>A state that the scan passes through has the same scan ahead of it.\<close>

lemma scan_reaches_scan:
  assumes "scan_reaches b s s'"
  shows "scan b (fst s) (snd s) = scan b (fst s') (snd s')"
  using assms
proof (induction rule: scan_reaches.induct)
  case start
  show ?case by simp
next
  case (turn s' s'')
  obtain a1 r1 where s': "s' = (a1, r1)" by (cases s')
  obtain a2 r2 where s'': "s'' = (a2, r2)" by (cases s'')
  from turn.hyps(2) s' s'' have "scan b a1 r1 = scan b a2 r2"
    by (subst scan.simps) simp
  with turn.IH s' s'' show ?case by simp
qed

text \<open>A turn of the loop changes nothing of the analyzer but the file handle.\<close>

lemma scan_reaches_window:
  assumes "scan_reaches b s s'"
  shows "self_now (fst s') = self_now (fst s) \<and> self_min_time (fst s') = self_min_time (fst s)"
  using assms
proof (induction rule: scan_reaches.induct)
  case start
  show ?case by simp
next
  case (turn s' s'')
  obtain a1 r1 where s': "s' = (a1, r1)" by (cases s')
  obtain a2 r2 where s'': "s'' = (a2, r2)" by (cases s'')
  from turn.hyps(2) s' s'' scan_step_Inl [of b a1 r1 a2 r2]
  obtain rest where "a2 = a1\<lparr>self_log := rest\<rparr>"
    by auto
  with turn.IH s' s'' show ?case by simp
qed

lemma scan_window:
  assumes "scan b a report = (x, a', report')"
  shows "self_now a' = self_now a \<and> self_min_time a' = self_min_time a"
  using assms
proof (induction b a report arbitrary: x a' report' rule: scan.induct)
  case (1 b a report)
  show ?case
  proof (cases "scan_step b (a, report)")
    case (Inl s)
    obtain a1 r1 where s: "s = (a1, r1)" by (cases s)
    from Inl s scan_step_Inl [of b a report a1 r1] obtain rest where
      a1: "a1 = a\<lparr>self_log := rest\<rparr>"
      by auto
    from "1.prems" Inl s have "scan b a1 r1 = (x, a', report')"
      by (subst (asm) scan.simps) simp
    with "1.IH" [OF Inl s [symmetric]] a1 show ?thesis
      by simp
  next
    case (Inr res)
    with "1.prems" have "scan_step b (a, report) = Inr (x, a', report')"
      by (subst (asm) scan.simps) simp
    from scan_step_Inr [OF this] show ?thesis
      by auto
  qed
qed

text \<open>The minute of a datetime.\<close>

lemma replace_second0_microsecond0_minute:
  "replace_second0_microsecond0 t mod 60000000 = 0 \<and>
   replace_second0_microsecond0 t \<le> t \<and> t < replace_second0_microsecond0 t + 60000000"
  unfolding replace_second0_microsecond0_def
  by (simp add: minus_mod_eq_mult_div [symmetric]) 

text \<open>
  C8, as it holds: a call whose clock read \<open>clock\<close> sets \<open>now\<close> to the minute of \<open>clock\<close>,
  which is \<open>clock\<close> with its seconds and microseconds at zero. If that minute minus
  \<open>max_age\<close> minutes is a datetime, the call sets \<open>min_time\<close> to it, and both values
  are the same in every state that the scan passes through and in the analyzer after
  the call. If it is no datetime (before year 1 or after year 9999), the subtraction
  raises OverflowError: the call ends before a report is made and \<open>min_time\<close> is not set.
\<close>

theorem C8_window_fixed_for_scan:
  "(valid_datetime (replace_second0_microsecond0 clock - 60000000 * self_max_age a0) \<longrightarrow>
      (\<exists>a. set_window clock a0 = (a, None) \<and>
         self_now a = Some (clock - clock mod 60000000) \<and>
         (clock - clock mod 60000000) mod 60000000 = 0 \<and>
         self_min_time a = Some (clock - clock mod 60000000 - 60000000 * self_max_age a0) \<and>
         (\<forall>a' report'. scan_reaches b (a, Report_init) (a', report') \<longrightarrow>
            self_now a' = self_now a \<and> self_min_time a' = self_min_time a) \<and>
         self_now (fst (Analyzer_call b clock elapsed a0)) = self_now a \<and>
         self_min_time (fst (Analyzer_call b clock elapsed a0)) = self_min_time a)) \<and>
   (\<not> valid_datetime (replace_second0_microsecond0 clock - 60000000 * self_max_age a0) \<longrightarrow>
      Analyzer_call b clock elapsed a0 =
        (a0\<lparr>self_now := Some (clock - clock mod 60000000)\<rparr>, Raised OverflowError None))"
proof (intro conjI impI)
  assume v: "valid_datetime (replace_second0_microsecond0 clock - 60000000 * self_max_age a0)"
  define a where "a = a0\<lparr>self_now := Some (replace_second0_microsecond0 clock),
      self_min_time := Some (replace_second0_microsecond0 clock - 60000000 * self_max_age a0)\<rparr>"
  from v have w: "set_window clock a0 = (a, None)"
    by (simp add: set_window_def minus_timedelta_minutes_def a_def)
  have now: "self_now a = Some (clock - clock mod 60000000)"
    and min_time: "self_min_time a =
      Some (clock - clock mod 60000000 - 60000000 * self_max_age a0)"
    by (simp_all add: a_def replace_second0_microsecond0_def)
  have minute: "(clock - clock mod 60000000) mod 60000000 = 0"
    using replace_second0_microsecond0_minute [of clock]
    by (simp add: replace_second0_microsecond0_def)
  have during: "\<forall>a' report'. scan_reaches b (a, Report_init) (a', report') \<longrightarrow>
            self_now a' = self_now a \<and> self_min_time a' = self_min_time a"
    using scan_reaches_window [of b "(a, Report_init)"] by fastforce
  obtain x a2 r2 where s: "scan b a Report_init = (x, a2, r2)"
    by (cases "scan b a Report_init") auto
  from w s have "fst (Analyzer_call b clock elapsed a0) = a2"
    by (cases x) (simp_all add: Analyzer_call_def)
  with scan_window [OF s] have after:
    "self_now (fst (Analyzer_call b clock elapsed a0)) = self_now a"
    "self_min_time (fst (Analyzer_call b clock elapsed a0)) = self_min_time a"
    by simp_all
  show "\<exists>a. set_window clock a0 = (a, None) \<and>
         self_now a = Some (clock - clock mod 60000000) \<and>
         (clock - clock mod 60000000) mod 60000000 = 0 \<and>
         self_min_time a = Some (clock - clock mod 60000000 - 60000000 * self_max_age a0) \<and>
         (\<forall>a' report'. scan_reaches b (a, Report_init) (a', report') \<longrightarrow>
            self_now a' = self_now a \<and> self_min_time a' = self_min_time a) \<and>
         self_now (fst (Analyzer_call b clock elapsed a0)) = self_now a \<and>
         self_min_time (fst (Analyzer_call b clock elapsed a0)) = self_min_time a"
    by (intro exI [of _ a] conjI w now minute min_time during after)
next
  assume "\<not> valid_datetime (replace_second0_microsecond0 clock - 60000000 * self_max_age a0)"
  then show "Analyzer_call b clock elapsed a0 =
        (a0\<lparr>self_now := Some (clock - clock mod 60000000)\<rparr>, Raised OverflowError None)"
    by (simp add: Analyzer_call_def set_window_def minus_timedelta_minutes_def
        replace_second0_microsecond0_def)
qed

theorem C8_window_fixed_for_scan_witness:
  "valid_datetime (replace_second0_microsecond0 6050000123 - 60000000 * 10) \<and>
   set_window 6050000123 (demo_analyzer [''mid'', ''last''] [] 10) =
     (demo_scanning [''mid'', ''last''] [], None) \<and>
   scan_reaches demo_builtins (demo_scanning [''mid'', ''last''] [], Report_init)
     (demo_scanning [''last''] [],
      \<lparr>entries = [demo_add ''/ab/x'' 200], execution_time = None\<rparr>) \<and>
   self_now (demo_scanning [''last''] []) = Some 6000000000 \<and>
   self_min_time (demo_scanning [''last''] []) = Some 5400000000 \<and>
   self_now (fst (Analyzer_call demo_builtins 6050000123 0
      (demo_analyzer [''mid'', ''last''] [] 10))) = Some 6000000000 \<and>
   self_min_time (fst (Analyzer_call demo_builtins 6050000123 0
      (demo_analyzer [''mid'', ''last''] [] 10))) = Some 5400000000 \<and>
   \<not> valid_datetime (replace_second0_microsecond0 63525391970000000 - 60000000 * 1000000000000) \<and>
   Analyzer_call demo_builtins 63525391970000000 0 (demo_analyzer [''mid''] [] 1000000000000) =
     ((demo_analyzer [''mid''] [] 1000000000000)\<lparr>self_now := Some 63525391920000000\<rparr>,
      Raised OverflowError None)"
proof -
  let ?init = "demo_analyzer [''mid'', ''last''] [] 10"
  let ?a = "demo_scanning [''mid'', ''last''] []"
  let ?next = "demo_scanning [''last''] []"
  let ?r = "\<lparr>entries = [demo_add ''/ab/x'' 200], execution_time = (None::real option)\<rparr>"
  let ?late = "demo_analyzer [''mid''] [] 1000000000000"
  have v: "valid_datetime (replace_second0_microsecond0 6050000123 - 60000000 * self_max_age ?init)"
    and v': "valid_datetime (replace_second0_microsecond0 6050000123 - 60000000 * 10)"
    by (simp_all add: valid_datetime_def replace_second0_microsecond0_def demo_defs)
  have w: "set_window 6050000123 ?init = (?a, None)"
    by (simp add: set_window_def minus_timedelta_minutes_def replace_second0_microsecond0_def
        valid_datetime_def demo_defs)
  have step: "scan_step demo_builtins (?a, Report_init) = Inl (?next, ?r)"
    by (simp add: demo_defs scan_step_def loop_body_def collect_def Analyzer_timestamp_def
        Analyzer_monitor_path_def Report_init_def Report_add_def)
  have reach: "scan_reaches demo_builtins (?a, Report_init) (?next, ?r)"
    by (rule scan_reaches.turn [OF scan_reaches.start step])
  from C8_window_fixed_for_scan [of 6050000123 ?init demo_builtins 0] v w
  have during: "\<forall>a' report'. scan_reaches demo_builtins (?a, Report_init) (a', report') \<longrightarrow>
            self_now a' = self_now ?a \<and> self_min_time a' = self_min_time ?a"
    and after: "self_now (fst (Analyzer_call demo_builtins 6050000123 0 ?init)) = self_now ?a"
      "self_min_time (fst (Analyzer_call demo_builtins 6050000123 0 ?init)) = self_min_time ?a"
    by simp_all
  have vals: "self_now ?a = Some 6000000000" "self_min_time ?a = Some 5400000000"
    by (simp_all add: demo_defs)
  from during reach vals have n: "self_now ?next = Some 6000000000"
    and m: "self_min_time ?next = Some 5400000000"
    by auto
  from after vals have n': "self_now (fst (Analyzer_call demo_builtins 6050000123 0 ?init)) =
      Some 6000000000"
    and m': "self_min_time (fst (Analyzer_call demo_builtins 6050000123 0 ?init)) =
      Some 5400000000"
    by simp_all
  have nv: "\<not> valid_datetime (replace_second0_microsecond0 63525391970000000 -
      60000000 * self_max_age ?late)"
    and nv': "\<not> valid_datetime (replace_second0_microsecond0 63525391970000000 -
      60000000 * 1000000000000)"
    by (simp_all add: valid_datetime_def replace_second0_microsecond0_def demo_defs)
  from C8_window_fixed_for_scan [of 63525391970000000 ?late demo_builtins 0] nv
  have late: "Analyzer_call demo_builtins 63525391970000000 0 ?late =
     (?late\<lparr>self_now := Some 63525391920000000\<rparr>, Raised OverflowError None)"
    by simp
  from v' w reach n m n' m' nv' late show ?thesis
    by (intro conjI)
qed

text \<open>
  C8 as the claim words it fails when the window does not fit the calendar. The clock
  reads 2014-01-15 14:12:50 and \<open>max_age\<close> is a million million minutes, which is more
  than 1.9 million years: line 95 raises OverflowError, \<open>min_time\<close> is not set, and the
  call ends without a report.
\<close>

theorem C8_counterexample:
  "set_window 63525391970000000 (demo_analyzer [''mid''] [] 1000000000000) =
     ((demo_analyzer [''mid''] [] 1000000000000)\<lparr>self_now := Some 63525391920000000\<rparr>,
      Some OverflowError) \<and>
   self_min_time (fst (Analyzer_call demo_builtins 63525391970000000 0
      (demo_analyzer [''mid''] [] 1000000000000))) = None \<and>
   snd (Analyzer_call demo_builtins 63525391970000000 0
      (demo_analyzer [''mid''] [] 1000000000000)) = Raised OverflowError None"
  by (simp add: Analyzer_call_def set_window_def minus_timedelta_minutes_def
      replace_second0_microsecond0_def valid_datetime_def demo_defs)

end
